theory Spec2Isabelle
  imports Complex_Main
begin

section \<open>The watermarking script \<^verbatim>\<open>scripts/add_watermark.py\<close>\<close>

text \<open>
  The script renders one watermark page with a vector-graphics canvas, merges it onto every
  page of an input document and writes the result to an output path. The document library
  (PyPDF2 or pypdf) and the renderer behind the canvas are external to the repository:
  they are parameters of the model (the record \<open>pdf_lib\<close>), so every theorem holds for
  whatever these libraries compute and for whichever of their calls raises. What standard
  output can encode, and the ambient state the renderer reads, are parameters too.
\<close>

subsection \<open>The world the script runs in\<close>

type_synonym path = string
type_synonym bytes = "char list"

text \<open>A path names a regular file with its content, a directory, or nothing.\<close>

datatype node = File bytes | Directory

type_synonym filesystem = "path \<Rightarrow> node option"

text \<open>
  An exception derived from Python's \<^verbatim>\<open>Exception\<close>, with the text \<^verbatim>\<open>str(e)\<close> gives.
  Every failure of a library call, of \<^verbatim>\<open>open\<close> or of \<^verbatim>\<open>print\<close> is of this kind.
\<close>

datatype exn = Exception (str: string)

text \<open>
  The calls that touch the outside of the script, in the order they are made:
  \<^verbatim>\<open>os.path.exists\<close>, \<^verbatim>\<open>PdfReader(input_pdf)\<close>, an entry into \<^verbatim>\<open>create_watermark\<close>
  with its three parameters, and \<^verbatim>\<open>open(output_pdf, 'wb')\<close>.
\<close>

datatype call =
    Exists path
  | OpenRead path
  | Generate string real real
  | OpenWrite path

text \<open>
  The world of a process: the file system; the lines printed on standard output; for each
  line, the \<^verbatim>\<open>UnicodeEncodeError\<close> the encoding of standard output raises on it, if any;
  the uncaught exceptions the interpreter reported on standard error; the ambient state
  (time, random identifiers) the renderer reads when it writes a document; the calls made.
\<close>

record world =
  fs :: filesystem
  stdout :: "string list"
  encode_error :: "string \<Rightarrow> exn option"
  tracebacks :: "exn list"
  ambient :: nat
  calls :: "call list"

text \<open>
  \<^verbatim>\<open>print(line)\<close>. A string is the list of its bytes, so a line without a byte above
  127 is plain ASCII, which every encoding of standard output encodes. On any other line
  (an emoji, a path from the command line with such bytes) the encoding may raise, and
  then nothing is printed.
\<close>

definition ascii_only :: "string \<Rightarrow> bool" where
  "ascii_only line = list_all (\<lambda>c. \<not> digit7 c) line"

definition print_error :: "world \<Rightarrow> string \<Rightarrow> exn option" where
  "print_error w line = (if ascii_only line then None else encode_error w line)"

definition print :: "string \<Rightarrow> world \<Rightarrow> exn + world" where
  "print line w =
     (case print_error w line of
        Some e \<Rightarrow> Inl e
      | None \<Rightarrow> Inr (w\<lparr>stdout := stdout w @ [line]\<rparr>))"

text \<open>
  An exception no handler catches ends the process: the interpreter reports it on
  standard error and the exit status is 1.
\<close>

definition uncaught :: "exn \<Rightarrow> world \<Rightarrow> nat \<times> world" where
  "uncaught e w = (1, w\<lparr>tracebacks := tracebacks w @ [e]\<rparr>)"

definition log :: "call \<Rightarrow> world \<Rightarrow> world" where
  "log c w = w\<lparr>calls := calls w @ [c]\<rparr>"

definition path_exists :: "filesystem \<Rightarrow> path \<Rightarrow> bool" where
  "path_exists f p = (f p \<noteq> None)"

subsection \<open>The canvas\<close>

text \<open>
  The part of the reportlab canvas that \<^verbatim>\<open>create_watermark\<close> uses. The canvas keeps a
  graphics state (font, fill colour and fill opacity, and the transformations concatenated
  so far), a stack of saved graphics states, and the items drawn on the current page; an
  item records the graphics state it was drawn with. Numbers are real numbers; the source
  computes with floats, whose halving of the page size is exact.
\<close>

datatype color = Color real real real

definition gray :: color where
  "gray = Color (128 / 255) (128 / 255) (128 / 255)"

definition black :: color where
  "black = Color 0 0 0"

text \<open>\<^verbatim>\<open>reportlab.lib.pagesizes.A4\<close>: 210 mm by 297 mm in points of 1/72 inch.\<close>

definition A4 :: "real \<times> real" where
  "A4 = (210 * (72 / 25.4), 297 * (72 / 25.4))"

datatype transform = Translate real real | Rotate real

record gstate =
  font_name :: string
  font_size :: real
  fill_color :: color
  fill_alpha :: real
  ctm :: "transform list"

datatype item = CentredString gstate real real string

record canvas_page =
  page_size :: "real \<times> real"
  page_items :: "item list"

record canvas =
  pagesize :: "real \<times> real"
  gs :: gstate
  state_stack :: "gstate list"
  items :: "item list"

definition Canvas :: "real \<times> real \<Rightarrow> canvas" where
  "Canvas psize =
     \<lparr>pagesize = psize,
      gs = \<lparr>font_name = ''Helvetica'', font_size = 12, fill_color = black,
            fill_alpha = 1, ctm = []\<rparr>,
      state_stack = [],
      items = []\<rparr>"

definition setFont :: "string \<Rightarrow> real \<Rightarrow> canvas \<Rightarrow> canvas" where
  "setFont name pt can = can\<lparr>gs := (gs can)\<lparr>font_name := name, font_size := pt\<rparr>\<rparr>"

definition setFillColor :: "color \<Rightarrow> real \<Rightarrow> canvas \<Rightarrow> canvas" where
  "setFillColor c alpha can = can\<lparr>gs := (gs can)\<lparr>fill_color := c, fill_alpha := alpha\<rparr>\<rparr>"

definition saveState :: "canvas \<Rightarrow> canvas" where
  "saveState can = can\<lparr>state_stack := gs can # state_stack can\<rparr>"

definition restoreState :: "canvas \<Rightarrow> exn + canvas" where
  "restoreState can =
     (case state_stack can of
        [] \<Rightarrow> Inl (Exception ''pop from empty list'')
      | g # rest \<Rightarrow> Inr (can\<lparr>gs := g, state_stack := rest\<rparr>))"

definition translate :: "real \<Rightarrow> real \<Rightarrow> canvas \<Rightarrow> canvas" where
  "translate dx dy can = can\<lparr>gs := (gs can)\<lparr>ctm := ctm (gs can) @ [Translate dx dy]\<rparr>\<rparr>"

definition rotate_canvas :: "real \<Rightarrow> canvas \<Rightarrow> canvas" where
  "rotate_canvas theta can = can\<lparr>gs := (gs can)\<lparr>ctm := ctm (gs can) @ [Rotate theta]\<rparr>\<rparr>"

definition drawCentredString :: "real \<Rightarrow> real \<Rightarrow> string \<Rightarrow> canvas \<Rightarrow> canvas" where
  "drawCentredString x y text can = can\<lparr>items := items can @ [CentredString (gs can) x y text]\<rparr>"

text \<open>\<^verbatim>\<open>can.save()\<close> closes the current page; the document holds that one page.\<close>

definition save :: "canvas \<Rightarrow> canvas_page list" where
  "save can = [\<lparr>page_size = pagesize can, page_items = items can\<rparr>]"

text \<open>
  Where a point of an item's own coordinates lands on the page: the transformation
  concatenated last applies first, and a rotation turns counter-clockwise by an angle
  given in degrees.
\<close>

fun apply_transform :: "transform \<Rightarrow> real \<times> real \<Rightarrow> real \<times> real" where
  "apply_transform (Translate dx dy) (x, y) = (x + dx, y + dy)"
| "apply_transform (Rotate a) (x, y) =
     (x * cos (a * pi / 180) - y * sin (a * pi / 180),
      x * sin (a * pi / 180) + y * cos (a * pi / 180))"

definition to_page :: "transform list \<Rightarrow> real \<times> real \<Rightarrow> real \<times> real" where
  "to_page ts p = foldr apply_transform ts p"

subsection \<open>The external libraries\<close>

text \<open>
  What the script asks of its libraries, over any type \<open>'r\<close> of readers and any type
  \<open>'p\<close> of in-memory pages:
  \<^item> \<open>open_reader\<close>: \<^verbatim>\<open>PdfReader(path)\<close>, the reader over the document stored at a
    path, or the exception raised while opening or parsing it;
  \<^item> \<open>reader_pages\<close>: \<^verbatim>\<open>reader.pages\<close>, the pages of a reader, or the exception raised
    when they are fetched;
  \<^item> \<open>render\<close>: the bytes \<^verbatim>\<open>can.save()\<close> writes into the packet for the pages drawn,
    in a given ambient state (the renderer stamps a document with dates and an
    identifier);
  \<^item> \<open>read_stream\<close>: \<^verbatim>\<open>PdfReader(packet)\<close>, the reader over a byte stream;
  \<^item> \<open>merge_page\<close>: \<^verbatim>\<open>page.merge_page(watermark_page)\<close>, the receiving page after the
    merge (the page passed as argument is left as it was);
  \<^item> \<open>add_page_error\<close>: the exception \<^verbatim>\<open>writer.add_page(page)\<close> raises, if any; otherwise
    the page is appended to the writer's pages;
  \<^item> \<open>open_wb_error\<close>: the exception \<^verbatim>\<open>open(path, 'wb')\<close> raises, if any; otherwise the
    file is created or truncated;
  \<^item> \<open>writer_write\<close>: \<^verbatim>\<open>writer.write(output_file)\<close>, the bytes of the whole document, or
    the exception raised together with the bytes written before it.
\<close>

record ('r, 'p) pdf_lib =
  open_reader :: "filesystem \<Rightarrow> path \<Rightarrow> exn + 'r"
  reader_pages :: "'r \<Rightarrow> exn + 'p list"
  render :: "nat \<Rightarrow> canvas_page list \<Rightarrow> exn + bytes"
  read_stream :: "bytes \<Rightarrow> exn + 'r"
  merge_page :: "'p \<Rightarrow> 'p \<Rightarrow> exn + 'p"
  add_page_error :: "'p list \<Rightarrow> 'p \<Rightarrow> exn option"
  open_wb_error :: "filesystem \<Rightarrow> path \<Rightarrow> exn option"
  writer_write :: "'p list \<Rightarrow> (exn \<times> bytes) + bytes"

subsection \<open>What the script prints\<close>

text \<open>
  The two emoji of the source are their UTF-8 bytes: U+2705 (check mark) and U+274C
  (cross mark).
\<close>

definition check_mark :: string where
  "check_mark = [CHR 0xE2, CHR 0x9C, CHR 0x85]"

definition cross_mark :: string where
  "cross_mark = [CHR 0xE2, CHR 0x9D, CHR 0x8C]"

definition import_error_line :: string where
  "import_error_line =
     ''Error: Need PyPDF2/pypdf and reportlab. Install with: pip install PyPDF2 reportlab''"

definition success_line :: "path \<Rightarrow> string" where
  "success_line output_pdf = check_mark @ '' Successfully added watermark to '' @ output_pdf"

definition error_line :: "path \<Rightarrow> exn \<Rightarrow> string" where
  "error_line input_pdf e = cross_mark @ '' Error processing '' @ input_pdf @ '': '' @ str e"

definition usage_line :: string where
  "usage_line = ''Usage: python3 add_watermark.py <input_pdf> <output_pdf>''"

definition not_found_line :: "path \<Rightarrow> string" where
  "not_found_line input_pdf = cross_mark @ '' Error: Input file '' @ input_pdf @ '' not found''"

subsection \<open>\<^verbatim>\<open>create_watermark\<close>\<close>

text \<open>
  An argument left out of a call is \<open>None\<close>, and the function takes its default then. The
  function returns the reader over the packet. It touches neither the file system nor
  standard output; the entry into the function is recorded in \<open>calls\<close>.
\<close>

definition create_watermark ::
  "('r, 'p) pdf_lib \<Rightarrow> string option \<Rightarrow> real option \<Rightarrow> real option \<Rightarrow> world
     \<Rightarrow> (exn + 'r) \<times> world" where
  "create_watermark lib text_arg angle_arg opacity_arg w =
     (let text = (case text_arg of None \<Rightarrow> ''PREPRINT'' | Some t \<Rightarrow> t);
          angle = (case angle_arg of None \<Rightarrow> 45 | Some a \<Rightarrow> a);
          opacity = (case opacity_arg of None \<Rightarrow> 3 / 10 | Some a \<Rightarrow> a);
          w1 = log (Generate text angle opacity) w;
          can = Canvas A4;
          can = setFont ''Helvetica-Bold'' 60 can;
          can = setFillColor gray opacity can;
          (width, height) = A4;
          can = saveState can;
          can = translate (width / 2) (height / 2) can;
          can = rotate_canvas angle can;
          can = drawCentredString 0 0 text can
      in case restoreState can of
           Inl e \<Rightarrow> (Inl e, w1)
         | Inr can \<Rightarrow>
             (case render lib (ambient w1) (save can) of
                Inl e \<Rightarrow> (Inl e, w1)
              | Inr packet \<Rightarrow> (read_stream lib packet, w1)))"

subsection \<open>\<^verbatim>\<open>add_watermark\<close>\<close>

text \<open>
  The loop over \<^verbatim>\<open>reader.pages\<close>: each page is merged with the one watermark page and
  appended to the writer; the first exception ends the loop.
\<close>

fun merge_pages :: "('r, 'p) pdf_lib \<Rightarrow> 'p \<Rightarrow> 'p list \<Rightarrow> 'p list \<Rightarrow> exn + 'p list" where
  "merge_pages lib watermark_page [] writer = Inr writer"
| "merge_pages lib watermark_page (page # rest) writer =
     (case merge_page lib page watermark_page of
        Inl e \<Rightarrow> Inl e
      | Inr merged \<Rightarrow>
          (case add_page_error lib writer merged of
             Some e \<Rightarrow> Inl e
           | None \<Rightarrow> merge_pages lib watermark_page rest (writer @ [merged])))"

text \<open>
  \<^verbatim>\<open>with open(output_pdf, 'wb') as output_file: writer.write(output_file)\<close>. Opening
  creates or truncates the file; a write that raises leaves the bytes written so far.
\<close>

definition write_output ::
  "('r, 'p) pdf_lib \<Rightarrow> path \<Rightarrow> 'p list \<Rightarrow> world \<Rightarrow> (exn + unit) \<times> world" where
  "write_output lib output_pdf writer w =
     (let w1 = log (OpenWrite output_pdf) w in
      case open_wb_error lib (fs w1) output_pdf of
        Some e \<Rightarrow> (Inl e, w1)
      | None \<Rightarrow>
          (case writer_write lib writer of
             Inl (e, written) \<Rightarrow> (Inl e, w1\<lparr>fs := (fs w1)(output_pdf \<mapsto> File written)\<rparr>)
           | Inr data \<Rightarrow> (Inr (), w1\<lparr>fs := (fs w1)(output_pdf \<mapsto> File data)\<rparr>)))"

text \<open>
  The body of the \<^verbatim>\<open>try\<close>: \<open>Inr True\<close> is \<^verbatim>\<open>return True\<close>, \<open>Inl e\<close> an exception \<open>e\<close>
  leaving the body; the confirmation is printed inside the body, so a print that raises
  leaves it as any other exception does. The writer starts with no page. \<^verbatim>\<open>watermark.pages[0]\<close> raises an
  \<^verbatim>\<open>IndexError\<close> on a reader without pages. The pages of the input are fetched when the
  loop starts, after the watermark was generated.
\<close>

definition try_body ::
  "('r, 'p) pdf_lib \<Rightarrow> path \<Rightarrow> path \<Rightarrow> string \<Rightarrow> world \<Rightarrow> (exn + bool) \<times> world" where
  "try_body lib input_pdf output_pdf watermark_text w =
     (let w1 = log (OpenRead input_pdf) w in
      case open_reader lib (fs w1) input_pdf of
        Inl e \<Rightarrow> (Inl e, w1)
      | Inr reader \<Rightarrow>
          (case create_watermark lib (Some watermark_text) None None w1 of
             (Inl e, w2) \<Rightarrow> (Inl e, w2)
           | (Inr watermark, w2) \<Rightarrow>
               (case reader_pages lib watermark of
                  Inl e \<Rightarrow> (Inl e, w2)
                | Inr watermark_pages \<Rightarrow>
                    (case watermark_pages of
                       [] \<Rightarrow> (Inl (Exception ''sequence index out of range''), w2)
                     | watermark_page # _ \<Rightarrow>
                         (case reader_pages lib reader of
                            Inl e \<Rightarrow> (Inl e, w2)
                          | Inr pages \<Rightarrow>
                              (case merge_pages lib watermark_page pages [] of
                                 Inl e \<Rightarrow> (Inl e, w2)
                               | Inr writer \<Rightarrow>
                                   (case write_output lib output_pdf writer w2 of
                                      (Inl e, w3) \<Rightarrow> (Inl e, w3)
                                    | (Inr _, w3) \<Rightarrow>
                                        (case print (success_line output_pdf) w3 of
                                           Inl e \<Rightarrow> (Inl e, w3)
                                         | Inr w4 \<Rightarrow> (Inr True, w4)))))))))"

text \<open>
  The \<^verbatim>\<open>try\<close> with its handler \<^verbatim>\<open>except Exception as e\<close>. \<open>Inr\<close> is the value returned;
  \<open>Inl e\<close> is an exception leaving the function, which only the print of the handler can
  raise.
\<close>

definition add_watermark ::
  "('r, 'p) pdf_lib \<Rightarrow> path \<Rightarrow> path \<Rightarrow> string option \<Rightarrow> world
     \<Rightarrow> (exn + bool) \<times> world" where
  "add_watermark lib input_pdf output_pdf text_arg w =
     (let watermark_text = (case text_arg of None \<Rightarrow> ''PREPRINT'' | Some t \<Rightarrow> t) in
      case try_body lib input_pdf output_pdf watermark_text w of
        (Inr r, w1) \<Rightarrow> (Inr r, w1)
      | (Inl e, w1) \<Rightarrow>
          (case print (error_line input_pdf e) w1 of
             Inl e' \<Rightarrow> (Inl e', w1)
           | Inr w2 \<Rightarrow> (Inr False, w2)))"

subsection \<open>The script\<close>

text \<open>
  The block under \<^verbatim>\<open>if __name__ == "__main__"\<close>. \<open>argv\<close> is \<^verbatim>\<open>sys.argv\<close>, the script's
  name first; the result is the exit status with the world the process leaves.
\<close>

definition main :: "('r, 'p) pdf_lib \<Rightarrow> string list \<Rightarrow> world \<Rightarrow> nat \<times> world" where
  "main lib argv w =
     (if length argv < 3 then
        (case print usage_line w of
           Inl e \<Rightarrow> uncaught e w
         | Inr w1 \<Rightarrow> (1, w1))
      else
        let input_pdf = argv ! 1;
            output_pdf = argv ! 2;
            w1 = log (Exists input_pdf) w
        in if \<not> path_exists (fs w1) input_pdf then
             (case print (not_found_line input_pdf) w1 of
                Inl e \<Rightarrow> uncaught e w1
              | Inr w2 \<Rightarrow> (1, w2))
           else
             (case add_watermark lib input_pdf output_pdf None w1 of
                (Inl e, w2) \<Rightarrow> uncaught e w2
              | (Inr success, w2) \<Rightarrow> (if success then 0 else 1, w2)))"

text \<open>
  The imports at the head of the module run before that block: the first group of
  modules, then the second if one of the first cannot be imported, then the install hint
  and exit status 1 if one of the second cannot either. \<open>importable\<close> tells which
  \<^verbatim>\<open>import\<close> statements succeed; the document library the names end up bound to is
  \<open>lib_of\<close> the backend.
\<close>

datatype backend = PyPDF2 | Pypdf

definition reportlab_modules :: "string list" where
  "reportlab_modules =
     [''reportlab.pdfgen'', ''reportlab.lib.pagesizes'', ''reportlab.lib.colors'',
      ''reportlab.lib.utils'', ''io'']"

definition import_libs :: "(string \<Rightarrow> bool) \<Rightarrow> backend option" where
  "import_libs importable =
     (if list_all importable (''PyPDF2'' # reportlab_modules) then Some PyPDF2
      else if list_all importable (''pypdf'' # reportlab_modules) then Some Pypdf
      else None)"

definition script ::
  "(string \<Rightarrow> bool) \<Rightarrow> (backend \<Rightarrow> ('r, 'p) pdf_lib) \<Rightarrow> string list \<Rightarrow> world
     \<Rightarrow> nat \<times> world" where
  "script importable lib_of argv w =
     (case import_libs importable of
        None \<Rightarrow>
          (case print import_error_line w of
             Inl e \<Rightarrow> uncaught e w
           | Inr w1 \<Rightarrow> (1, w1))
      | Some b \<Rightarrow> main (lib_of b) argv w)"

subsection \<open>A small library and world to run the model on\<close>

text \<open>
  A stand-in for the libraries, on which the definitions above evaluate: a page is the
  string of its content and a reader the list of its pages, a stored document holds one
  page per byte, the rendering of a canvas is the text drawn on it and reads back as one
  page, a merge appends the content of the second page, and a page with content \<open>!\<close>
  cannot be merged. Standard output encodes every line in the first world, and in the
  second no line that is not plain ASCII.
\<close>

fun item_text :: "item \<Rightarrow> string" where
  "item_text (CentredString g x y t) = t"

definition demo_lib :: "(string list, string) pdf_lib" where
  "demo_lib =
     \<lparr>open_reader = (\<lambda>f p. case f p of
                      None \<Rightarrow> Inl (Exception ''No such file or directory'')
                    | Some Directory \<Rightarrow> Inl (Exception ''Is a directory'')
                    | Some (File b) \<Rightarrow>
                        if b = [] then Inl (Exception ''Cannot read an empty file'')
                        else Inr (map (\<lambda>c. [c]) b)),
      reader_pages = (\<lambda>r. Inr r),
      render = (\<lambda>a pages. Inr (concat (map (\<lambda>pg. concat (map item_text (page_items pg))) pages))),
      read_stream = (\<lambda>b. Inr [b]),
      merge_page = (\<lambda>p wm. if p = ''!'' then Inl (Exception ''cannot merge'') else Inr (p @ wm)),
      add_page_error = (\<lambda>writer p. None),
      open_wb_error = (\<lambda>f p. if f p = Some Directory then Some (Exception ''Is a directory'')
                             else None),
      writer_write = (\<lambda>ps. Inr (concat ps))\<rparr>"

definition demo_world :: world where
  "demo_world =
     \<lparr>fs = [''in.pdf'' \<mapsto> File ''ab'', ''bad.pdf'' \<mapsto> File ''a!''],
      stdout = [],
      encode_error = (\<lambda>line. None),
      tracebacks = [],
      ambient = 0,
      calls = []\<rparr>"

definition charmap_world :: world where
  "charmap_world =
     demo_world\<lparr>encode_error :=
       (\<lambda>line. Some (Exception ''charmap codec cannot encode character''))\<rparr>"

section \<open>Properties\<close>

subsection \<open>Printing\<close>

lemma print_ok:
  "print_error w line = None \<Longrightarrow> print line w = Inr (w\<lparr>stdout := stdout w @ [line]\<rparr>)"
  by (simp add: print_def)

lemma print_raises: "print_error w line = Some e \<Longrightarrow> print line w = Inl e"
  by (simp add: print_def)

lemma ascii_usage_line: "print_error w usage_line = None"
  by (simp add: print_error_def ascii_only_def usage_line_def)

lemma ascii_import_error_line: "print_error w import_error_line = None"
  by (simp add: print_error_def ascii_only_def import_error_line_def)

lemma emoji_not_ascii: "\<not> ascii_only (check_mark @ s)" "\<not> ascii_only (cross_mark @ s)"
  by (simp_all add: ascii_only_def check_mark_def cross_mark_def)

subsection \<open>What \<^verbatim>\<open>create_watermark\<close> computes\<close>

lemma create_watermark_result:
  "create_watermark lib text_arg angle_arg opacity_arg w =
     (let text = (case text_arg of None \<Rightarrow> ''PREPRINT'' | Some t \<Rightarrow> t);
          angle = (case angle_arg of None \<Rightarrow> 45 | Some a \<Rightarrow> a);
          opacity = (case opacity_arg of None \<Rightarrow> 3 / 10 | Some a \<Rightarrow> a)
      in (case render lib (ambient w)
               [\<lparr>page_size = A4,
                 page_items =
                   [CentredString
                      \<lparr>font_name = ''Helvetica-Bold'', font_size = 60, fill_color = gray,
                       fill_alpha = opacity,
                       ctm = [Translate (fst A4 / 2) (snd A4 / 2), Rotate angle]\<rparr>
                      0 0 text]\<rparr>] of
            Inl e \<Rightarrow> Inl e
          | Inr packet \<Rightarrow> read_stream lib packet,
          log (Generate text angle opacity) w))"
  by (simp add: create_watermark_def Let_def Canvas_def setFont_def setFillColor_def
      saveState_def translate_def rotate_canvas_def drawCentredString_def restoreState_def
      save_def split_beta log_def split: sum.splits)

lemma create_watermark_same_ambient:
  "ambient w = ambient w' \<Longrightarrow>
   fst (create_watermark lib text_arg angle_arg opacity_arg w) =
   fst (create_watermark lib text_arg angle_arg opacity_arg w')"
  by (simp add: create_watermark_result Let_def)

lemma create_watermark_split:
  "\<exists>gen. \<forall>v. ambient v = a \<longrightarrow>
     create_watermark lib (Some t) None None v = (gen, log (Generate t 45 (3 / 10)) v)"
  by (simp add: create_watermark_result Let_def)

subsection \<open>The loop\<close>

lemma merge_pages_Inr:
  "merge_pages lib wm pages writer = Inr outs \<Longrightarrow>
   \<exists>ms. outs = writer @ ms \<and> list_all2 (\<lambda>p q. merge_page lib p wm = Inr q) pages ms"
proof (induction pages arbitrary: writer)
  case Nil
  then show ?case by simp
next
  case (Cons page rest)
  from Cons.prems obtain merged where m: "merge_page lib page wm = Inr merged"
    and r: "merge_pages lib wm rest (writer @ [merged]) = Inr outs"
    by (auto split: sum.splits option.splits)
  from Cons.IH [OF r] obtain ms where "outs = (writer @ [merged]) @ ms"
    and "list_all2 (\<lambda>p q. merge_page lib p wm = Inr q) rest ms" by blast
  with m show ?case by (intro exI [of _ "merged # ms"]) simp
qed

lemma merge_pages_all2:
  "merge_pages lib wm pages [] = Inr outs \<Longrightarrow>
   list_all2 (\<lambda>p q. merge_page lib p wm = Inr q) pages outs"
  using merge_pages_Inr [of lib wm pages "[]" outs] by simp

text \<open>When every page merges and is appended, the loop ends with all of them, in order.\<close>

lemma merge_pages_succeeds:
  "length outs = length pages \<Longrightarrow>
   (\<forall>k < length pages.
      merge_page lib (pages ! k) wm = Inr (outs ! k) \<and>
      add_page_error lib (writer @ take k outs) (outs ! k) = None) \<Longrightarrow>
   merge_pages lib wm pages writer = Inr (writer @ outs)"
proof (induction pages arbitrary: writer outs)
  case Nil
  then show ?case by simp
next
  case (Cons page rest)
  from Cons.prems(1) obtain q qs where outs: "outs = q # qs" and len: "length qs = length rest"
    by (cases outs) auto
  from Cons.prems(2) [rule_format, of 0] outs
  have first: "merge_page lib page wm = Inr q" "add_page_error lib writer q = None"
    by simp_all
  have "\<forall>k < length rest.
      merge_page lib (rest ! k) wm = Inr (qs ! k) \<and>
      add_page_error lib ((writer @ [q]) @ take k qs) (qs ! k) = None"
  proof (intro allI impI)
    fix k assume "k < length rest"
    with Cons.prems(2) [rule_format, of "Suc k"] outs
    show "merge_page lib (rest ! k) wm = Inr (qs ! k) \<and>
      add_page_error lib ((writer @ [q]) @ take k qs) (qs ! k) = None"
      by simp
  qed
  from Cons.IH [OF len this] first outs show ?case by simp
qed

text \<open>
  When the pages before some page merge and are appended, and that page cannot be merged
  or cannot be appended, the loop ends with that exception.
\<close>

lemma merge_pages_raises:
  "k < length pages \<Longrightarrow> length ms = k \<Longrightarrow>
   (\<forall>j < k.
      merge_page lib (pages ! j) wm = Inr (ms ! j) \<and>
      add_page_error lib (writer @ take j ms) (ms ! j) = None) \<Longrightarrow>
   merge_page lib (pages ! k) wm = Inl e \<or>
   (\<exists>q. merge_page lib (pages ! k) wm = Inr q \<and> add_page_error lib (writer @ ms) q = Some e) \<Longrightarrow>
   merge_pages lib wm pages writer = Inl e"
proof (induction pages arbitrary: writer k ms)
  case Nil
  then show ?case by simp
next
  case (Cons page rest)
  show ?case
  proof (cases k)
    case 0
    with Cons.prems show ?thesis by auto
  next
    case (Suc n)
    with Cons.prems(2) obtain q qs where ms: "ms = q # qs" and len: "length qs = n"
      by (cases ms) auto
    from Cons.prems(3) [rule_format, of 0] Suc ms
    have first: "merge_page lib page wm = Inr q" "add_page_error lib writer q = None"
      by simp_all
    have n: "n < length rest" using Cons.prems(1) Suc by simp
    have before: "\<forall>j < n.
        merge_page lib (rest ! j) wm = Inr (qs ! j) \<and>
        add_page_error lib ((writer @ [q]) @ take j qs) (qs ! j) = None"
    proof (intro allI impI)
      fix j assume "j < n"
      with Cons.prems(3) [rule_format, of "Suc j"] Suc ms
      show "merge_page lib (rest ! j) wm = Inr (qs ! j) \<and>
        add_page_error lib ((writer @ [q]) @ take j qs) (qs ! j) = None"
        by simp
    qed
    have at: "merge_page lib (rest ! n) wm = Inl e \<or>
      (\<exists>q'. merge_page lib (rest ! n) wm = Inr q' \<and>
         add_page_error lib ((writer @ [q]) @ qs) q' = Some e)"
      using Cons.prems(4) Suc ms by simp
    from Cons.IH [OF n len before at] first show ?thesis by simp
  qed
qed

subsection \<open>The body of the \<^verbatim>\<open>try\<close>\<close>

lemma try_body_Inr:
  assumes "try_body lib i out t w = (Inr r, w')"
  shows "\<exists>reader watermark wm others pages outs data.
           r = True \<and>
           open_reader lib (fs w) i = Inr reader \<and>
           fst (create_watermark lib (Some t) None None w) = Inr watermark \<and>
           reader_pages lib watermark = Inr (wm # others) \<and>
           reader_pages lib reader = Inr pages \<and>
           merge_pages lib wm pages [] = Inr outs \<and>
           open_wb_error lib (fs w) out = None \<and>
           writer_write lib outs = Inr data \<and>
           print_error w (success_line out) = None \<and>
           w' = w\<lparr>fs := (fs w)(out \<mapsto> File data),
                  stdout := stdout w @ [success_line out],
                  calls := calls w @ [OpenRead i, Generate t 45 (3 / 10), OpenWrite out]\<rparr>"
proof -
  obtain gen where
    g: "\<And>v. ambient v = ambient w \<Longrightarrow>
      create_watermark lib (Some t) None None v = (gen, log (Generate t 45 (3 / 10)) v)"
    using create_watermark_split [of "ambient w" lib t] by blast
  have gw: "fst (create_watermark lib (Some t) None None w) = gen" by (simp add: g)
  show ?thesis
    using assms
    by (auto simp: try_body_def g gw write_output_def Let_def log_def print_def
        print_error_def split: sum.splits list.splits option.splits prod.splits if_splits)
qed

lemma try_body_succeeds:
  assumes "open_reader lib (fs w) i = Inr reader"
    and "fst (create_watermark lib (Some t) None None w) = Inr watermark"
    and "reader_pages lib watermark = Inr (wm # others)"
    and "reader_pages lib reader = Inr pages"
    and "merge_pages lib wm pages [] = Inr outs"
    and "open_wb_error lib (fs w) out = None"
    and "writer_write lib outs = Inr data"
    and "print_error w (success_line out) = None"
  shows "try_body lib i out t w =
           (Inr True,
            w\<lparr>fs := (fs w)(out \<mapsto> File data),
              stdout := stdout w @ [success_line out],
              calls := calls w @ [OpenRead i, Generate t 45 (3 / 10), OpenWrite out]\<rparr>)"
proof -
  obtain gen where
    g: "\<And>v. ambient v = ambient w \<Longrightarrow>
      create_watermark lib (Some t) None None v = (gen, log (Generate t 45 (3 / 10)) v)"
    using create_watermark_split [of "ambient w" lib t] by blast
  have gw: "fst (create_watermark lib (Some t) None None w) = gen" by (simp add: g)
  show ?thesis
    using assms
    by (auto simp: try_body_def g gw write_output_def Let_def log_def print_def
        print_error_def split: if_splits)
qed

text \<open>The output is written even when the confirmation cannot be printed.\<close>

lemma try_body_written:
  assumes "open_reader lib (fs w) i = Inr reader"
    and "fst (create_watermark lib (Some t) None None w) = Inr watermark"
    and "reader_pages lib watermark = Inr (wm # others)"
    and "reader_pages lib reader = Inr pages"
    and "merge_pages lib wm pages [] = Inr outs"
    and "open_wb_error lib (fs w) out = None"
    and "writer_write lib outs = Inr data"
  shows "fs (snd (try_body lib i out t w)) = (fs w)(out \<mapsto> File data)"
proof -
  obtain gen where
    g: "\<And>v. ambient v = ambient w \<Longrightarrow>
      create_watermark lib (Some t) None None v = (gen, log (Generate t 45 (3 / 10)) v)"
    using create_watermark_split [of "ambient w" lib t] by blast
  have gw: "fst (create_watermark lib (Some t) None None w) = gen" by (simp add: g)
  show ?thesis
    using assms
    by (auto simp: try_body_def g gw write_output_def Let_def log_def print_def
        split: option.splits)
qed

lemma try_body_Inl_calls:
  assumes "try_body lib i out t w = (Inl e, w')"
    and "open_reader lib (fs w) i = Inr reader"
  shows "calls w' = calls w @ [OpenRead i, Generate t 45 (3 / 10)]
       \<or> calls w' = calls w @ [OpenRead i, Generate t 45 (3 / 10), OpenWrite out]"
proof -
  obtain gen where
    g: "\<And>v. ambient v = ambient w \<Longrightarrow>
      create_watermark lib (Some t) None None v = (gen, log (Generate t 45 (3 / 10)) v)"
    using create_watermark_split [of "ambient w" lib t] by blast
  show ?thesis
    using assms
    by (auto simp: try_body_def g write_output_def Let_def log_def print_def
        split: sum.splits list.splits option.splits prod.splits)
qed

lemma try_body_raises:
  assumes "gen = fst (create_watermark lib (Some t) None None w)"
    and "open_reader lib (fs w) i = Inl e
      \<or> (\<exists>reader. open_reader lib (fs w) i = Inr reader \<and>
            (gen = Inl e
             \<or> (\<exists>watermark. gen = Inr watermark \<and>
                   (reader_pages lib watermark = Inl e
                    \<or> reader_pages lib watermark = Inr [] \<and>
                       e = Exception ''sequence index out of range''
                    \<or> (\<exists>wm others. reader_pages lib watermark = Inr (wm # others) \<and>
                          (reader_pages lib reader = Inl e
                           \<or> (\<exists>pages. reader_pages lib reader = Inr pages \<and>
                                 (merge_pages lib wm pages [] = Inl e
                                  \<or> (\<exists>outs. merge_pages lib wm pages [] = Inr outs \<and>
                                        (open_wb_error lib (fs w) out = Some e
                                         \<or> open_wb_error lib (fs w) out = None \<and>
                                            (\<exists>written.
                                               writer_write lib outs =
                                                 Inl (e, written))))))))))))"
  shows "\<exists>w1. try_body lib i out t w = (Inl e, w1) \<and> stdout w1 = stdout w \<and>
           encode_error w1 = encode_error w \<and> tracebacks w1 = tracebacks w"
proof -
  obtain g where
    g: "\<And>v. ambient v = ambient w \<Longrightarrow>
      create_watermark lib (Some t) None None v = (g, log (Generate t 45 (3 / 10)) v)"
    using create_watermark_split [of "ambient w" lib t] by blast
  have "gen = g" using assms(1) g by simp
  with assms(2) show ?thesis
    by (auto simp: try_body_def g write_output_def Let_def log_def)
qed

lemma try_body_raises_early:
  assumes "gen = fst (create_watermark lib (Some t) None None w)"
    and "open_reader lib (fs w) i = Inl e
      \<or> (\<exists>reader. open_reader lib (fs w) i = Inr reader \<and>
            (gen = Inl e
             \<or> (\<exists>watermark. gen = Inr watermark \<and>
                   (reader_pages lib watermark = Inl e
                    \<or> reader_pages lib watermark = Inr [] \<and>
                       e = Exception ''sequence index out of range''
                    \<or> (\<exists>wm others. reader_pages lib watermark = Inr (wm # others) \<and>
                          (reader_pages lib reader = Inl e
                           \<or> (\<exists>pages. reader_pages lib reader = Inr pages \<and>
                                 merge_pages lib wm pages [] = Inl e)))))))"
  shows "\<exists>w1 new. try_body lib i out t w = (Inl e, w1) \<and> stdout w1 = stdout w \<and>
           encode_error w1 = encode_error w \<and> tracebacks w1 = tracebacks w \<and>
           fs w1 = fs w \<and> calls w1 = calls w @ new \<and> (\<forall>p. OpenWrite p \<notin> set new)"
proof -
  obtain g where
    g: "\<And>v. ambient v = ambient w \<Longrightarrow>
      create_watermark lib (Some t) None None v = (g, log (Generate t 45 (3 / 10)) v)"
    using create_watermark_split [of "ambient w" lib t] by blast
  have "gen = g" using assms(1) g by simp
  with assms(2) show ?thesis
    by (auto simp: try_body_def g write_output_def Let_def log_def)
qed

lemma add_watermark_True:
  assumes "add_watermark lib i out text_arg w = (Inr True, w')"
    and "t = (case text_arg of None \<Rightarrow> ''PREPRINT'' | Some x \<Rightarrow> x)"
  shows "\<exists>reader watermark wm others pages outs data.
           open_reader lib (fs w) i = Inr reader \<and>
           fst (create_watermark lib (Some t) None None w) = Inr watermark \<and>
           reader_pages lib watermark = Inr (wm # others) \<and>
           reader_pages lib reader = Inr pages \<and>
           merge_pages lib wm pages [] = Inr outs \<and>
           open_wb_error lib (fs w) out = None \<and>
           writer_write lib outs = Inr data \<and>
           print_error w (success_line out) = None \<and>
           w' = w\<lparr>fs := (fs w)(out \<mapsto> File data),
                  stdout := stdout w @ [success_line out],
                  calls := calls w @ [OpenRead i, Generate t 45 (3 / 10), OpenWrite out]\<rparr>"
proof -
  from assms obtain r where "try_body lib i out t w = (Inr r, w')"
    by (auto simp: add_watermark_def print_def split: sum.splits prod.splits option.splits)
  from try_body_Inr [OF this] show ?thesis by blast
qed

text \<open>What the handler does with an exception leaving the body.\<close>

lemma add_watermark_handler:
  assumes "try_body lib i out t w = (Inl e, w1)"
    and "t = (case text_arg of None \<Rightarrow> ''PREPRINT'' | Some x \<Rightarrow> x)"
  shows "add_watermark lib i out text_arg w =
           (case print_error w1 (error_line i e) of
              None \<Rightarrow> (Inr False, w1\<lparr>stdout := stdout w1 @ [error_line i e]\<rparr>)
            | Some e' \<Rightarrow> (Inl e', w1))"
  using assms by (simp add: add_watermark_def print_def split: option.splits)

subsection \<open>The imports in front of the \<^verbatim>\<open>__main__\<close> block\<close>

lemma script_runs_main:
  "import_libs importable = Some b \<Longrightarrow>
   script importable lib_of argv w = main (lib_of b) argv w"
  by (simp add: script_def)

lemma script_without_libraries:
  "import_libs importable = None \<Longrightarrow>
   script importable lib_of argv w = (1, w\<lparr>stdout := stdout w @ [import_error_line]\<rparr>)"
  by (simp add: script_def print_ok [OF ascii_import_error_line])

subsection \<open>When a line cannot be printed\<close>

lemma print_error_cong:
  "encode_error v = encode_error w \<Longrightarrow> print_error v line = print_error w line"
  by (simp add: print_error_def)

lemma try_body_print_raises:
  assumes "open_reader lib (fs w) i = Inr reader"
    and "fst (create_watermark lib (Some t) None None w) = Inr watermark"
    and "reader_pages lib watermark = Inr (wm # others)"
    and "reader_pages lib reader = Inr pages"
    and "merge_pages lib wm pages [] = Inr outs"
    and "open_wb_error lib (fs w) out = None"
    and "writer_write lib outs = Inr data"
    and "print_error w (success_line out) = Some e"
  shows "try_body lib i out t w =
           (Inl e,
            w\<lparr>fs := (fs w)(out \<mapsto> File data),
              calls := calls w @ [OpenRead i, Generate t 45 (3 / 10), OpenWrite out]\<rparr>)"
proof -
  obtain gen where
    g: "\<And>v. ambient v = ambient w \<Longrightarrow>
      create_watermark lib (Some t) None None v = (gen, log (Generate t 45 (3 / 10)) v)"
    using create_watermark_split [of "ambient w" lib t] by blast
  have gw: "fst (create_watermark lib (Some t) None None w) = gen" by (simp add: g)
  show ?thesis
    using assms
    by (auto simp: try_body_def g gw write_output_def Let_def log_def print_def
        print_error_def split: if_splits)
qed

subsection \<open>The model on the small library\<close>

lemma demo_read: "open_reader demo_lib (fs demo_world) ''in.pdf'' = Inr [''a'', ''b'']"
  by (simp add: demo_lib_def demo_world_def)

lemma demo_read_bad: "open_reader demo_lib (fs demo_world) ''bad.pdf'' = Inr [''a'', ''!'']"
  by (simp add: demo_lib_def demo_world_def)

lemma demo_generate:
  "fst (create_watermark demo_lib (Some ''PREPRINT'') None None w) = Inr [''PREPRINT'']"
  by (simp add: create_watermark_result demo_lib_def Let_def)

lemma demo_pages: "reader_pages demo_lib r = Inr r"
  by (simp add: demo_lib_def)

lemma demo_merge:
  "merge_pages demo_lib ''PREPRINT'' [''a'', ''b''] [] = Inr [''aPREPRINT'', ''bPREPRINT'']"
  by (simp add: demo_lib_def)

lemma demo_merge_bad:
  "merge_pages demo_lib ''PREPRINT'' [''a'', ''!''] [] = Inl (Exception ''cannot merge'')"
  by (simp add: demo_lib_def)

lemma demo_each_page:
  "\<forall>k < length [''a'', ''b''].
     merge_page demo_lib ([''a'', ''b''] ! k) ''PREPRINT'' = Inr ([''aPREPRINT'', ''bPREPRINT''] ! k) \<and>
     add_page_error demo_lib (take k [''aPREPRINT'', ''bPREPRINT''])
       ([''aPREPRINT'', ''bPREPRINT''] ! k) = None"
  by (simp add: demo_lib_def less_Suc_eq)

lemma demo_open: "open_wb_error demo_lib (fs demo_world) ''out.pdf'' = None"
  by (simp add: demo_lib_def demo_world_def)

lemma demo_write:
  "writer_write demo_lib [''aPREPRINT'', ''bPREPRINT''] = Inr ''aPREPRINTbPREPRINT''"
  by (simp add: demo_lib_def)

lemma demo_prints: "print_error demo_world line = None"
  by (simp add: print_error_def demo_world_def)

lemma charmap_fs: "fs charmap_world = fs demo_world"
  by (simp add: charmap_world_def)

lemma charmap_emoji:
  "print_error charmap_world (success_line p) =
     Some (Exception ''charmap codec cannot encode character'')"
  "print_error (v\<lparr>encode_error := encode_error charmap_world\<rparr>) (error_line p e) =
     Some (Exception ''charmap codec cannot encode character'')"
  "print_error charmap_world (not_found_line p) =
     Some (Exception ''charmap codec cannot encode character'')"
  by (simp_all add: print_error_def charmap_world_def success_line_def error_line_def
      not_found_line_def emoji_not_ascii)

lemma demo_run:
  "add_watermark demo_lib ''in.pdf'' ''out.pdf'' None demo_world =
     (Inr True,
      demo_world\<lparr>fs := (fs demo_world)(''out.pdf'' \<mapsto> File ''aPREPRINTbPREPRINT''),
        stdout := stdout demo_world @ [success_line ''out.pdf''],
        calls := calls demo_world @
          [OpenRead ''in.pdf'', Generate ''PREPRINT'' 45 (3 / 10), OpenWrite ''out.pdf'']\<rparr>)"
  using try_body_succeeds
    [OF demo_read demo_generate demo_pages demo_pages demo_merge demo_open demo_write
      demo_prints]
  by (simp add: add_watermark_def)

lemma demo_bad_run:
  "\<exists>w1. try_body demo_lib ''bad.pdf'' out ''PREPRINT'' w = (Inl (Exception ''cannot merge''), w1) \<and>
     stdout w1 = stdout w \<and> encode_error w1 = encode_error w \<and> tracebacks w1 = tracebacks w \<and>
     fs w1 = fs w"
  if "fs w = fs demo_world" for w out
proof -
  from try_body_raises_early [of "fst (create_watermark demo_lib (Some ''PREPRINT'') None None w)"
      demo_lib "''PREPRINT''" w "''bad.pdf''" "Exception ''cannot merge''" out]
    demo_read_bad demo_generate [of w] demo_merge_bad that
  show ?thesis by (auto simp: demo_pages)
qed

section \<open>The claims\<close>

subsection \<open>The merger\<close>

text \<open>
  Claim C1, as stated, fails: an input that parses gives no output document when a later
  step raises. In the small world the document at \<open>bad.pdf\<close> is opened and its two pages
  are fetched, its second page cannot be merged, and \<^verbatim>\<open>add_watermark\<close> returns \<^verbatim>\<open>False\<close>
  with nothing at the output path.
\<close>

theorem parsed_input_without_output:
  "open_reader demo_lib (fs demo_world) ''bad.pdf'' = Inr [''a'', ''!''] \<and>
   reader_pages demo_lib [''a'', ''!''] = Inr [''a'', ''!''] \<and>
   fst (add_watermark demo_lib ''bad.pdf'' ''out.pdf'' None demo_world) = Inr False \<and>
   fs (snd (add_watermark demo_lib ''bad.pdf'' ''out.pdf'' None demo_world)) ''out.pdf'' = None"
proof -
  from demo_bad_run [of demo_world "''out.pdf''"] obtain w1 where
    b: "try_body demo_lib ''bad.pdf'' ''out.pdf'' ''PREPRINT'' demo_world =
          (Inl (Exception ''cannot merge''), w1)"
    and e: "encode_error w1 = encode_error demo_world" and f: "fs w1 = fs demo_world"
    by auto
  have "print_error w1 line = None" for line
    using e by (simp add: print_error_def demo_world_def)
  with add_watermark_handler [OF b, of None] f demo_read_bad show ?thesis
    by (simp add: demo_pages demo_world_def)
qed

text \<open>
  Claim C1, amended. For an input document that parses, when the later steps succeed as
  well (the watermark is generated with at least one page, every page of the input is
  merged with the watermark page and appended to the writer, the output is opened and the
  document written), \<^verbatim>\<open>add_watermark\<close> leaves at the output path the writer's
  serialisation of exactly these merged pages: as many as the input has, the page at
  every position being the merge of the watermark onto the input page at that position.
  This holds whether or not the confirmation can then be printed.
\<close>

theorem output_pages_are_input_pages_watermarked:
  assumes "open_reader lib (fs w) input_pdf = Inr reader"
    and "reader_pages lib reader = Inr pages"
    and "t = (case text_arg of None \<Rightarrow> ''PREPRINT'' | Some x \<Rightarrow> x)"
    and "fst (create_watermark lib (Some t) None None w) = Inr watermark"
    and "reader_pages lib watermark = Inr (wm # others)"
    and "length outs = length pages"
    and "\<forall>k < length pages.
           merge_page lib (pages ! k) wm = Inr (outs ! k) \<and>
           add_page_error lib (take k outs) (outs ! k) = None"
    and "open_wb_error lib (fs w) output_pdf = None"
    and "writer_write lib outs = Inr data"
  shows "fs (snd (add_watermark lib input_pdf output_pdf text_arg w)) =
           (fs w)(output_pdf \<mapsto> File data)"
proof -
  from assms(7) have "\<forall>k < length pages.
      merge_page lib (pages ! k) wm = Inr (outs ! k) \<and>
      add_page_error lib ([] @ take k outs) (outs ! k) = None"
    by simp
  from merge_pages_succeeds [OF assms(6) this]
  have m: "merge_pages lib wm pages [] = Inr outs" by simp
  from try_body_written [OF assms(1, 4, 5, 2) m assms(8, 9)]
  have written: "fs (snd (try_body lib input_pdf output_pdf t w)) =
      (fs w)(output_pdf \<mapsto> File data)" .
  obtain r w1 where b: "try_body lib input_pdf output_pdf t w = (r, w1)"
    by (cases "try_body lib input_pdf output_pdf t w")
  with written have "fs w1 = (fs w)(output_pdf \<mapsto> File data)" by simp
  with b assms(3) show ?thesis
    by (cases r) (auto simp: add_watermark_def print_def split: option.splits)
qed

theorem output_pages_are_input_pages_watermarked_witness:
  "open_reader demo_lib (fs demo_world) ''in.pdf'' = Inr [''a'', ''b''] \<and>
   reader_pages demo_lib [''a'', ''b''] = Inr [''a'', ''b''] \<and>
   fst (create_watermark demo_lib (Some ''PREPRINT'') None None demo_world) = Inr [''PREPRINT''] \<and>
   reader_pages demo_lib [''PREPRINT''] = Inr [''PREPRINT''] \<and>
   merge_page demo_lib ''a'' ''PREPRINT'' = Inr ''aPREPRINT'' \<and>
   add_page_error demo_lib [] ''aPREPRINT'' = None \<and>
   merge_page demo_lib ''b'' ''PREPRINT'' = Inr ''bPREPRINT'' \<and>
   add_page_error demo_lib [''aPREPRINT''] ''bPREPRINT'' = None \<and>
   open_wb_error demo_lib (fs demo_world) ''out.pdf'' = None \<and>
   writer_write demo_lib [''aPREPRINT'', ''bPREPRINT''] = Inr ''aPREPRINTbPREPRINT'' \<and>
   fs (snd (add_watermark demo_lib ''in.pdf'' ''out.pdf'' None demo_world)) =
     (fs demo_world)(''out.pdf'' \<mapsto> File ''aPREPRINTbPREPRINT'')"
proof -
  have len: "length [''aPREPRINT'', ''bPREPRINT''] = length [''a'', ''b'']" by simp
  from output_pages_are_input_pages_watermarked
    [OF demo_read demo_pages _ demo_generate demo_pages len demo_each_page demo_open demo_write,
      of None]
  have "fs (snd (add_watermark demo_lib ''in.pdf'' ''out.pdf'' None demo_world)) =
     (fs demo_world)(''out.pdf'' \<mapsto> File ''aPREPRINTbPREPRINT'')"
    by simp
  with demo_read demo_generate [of demo_world] demo_open demo_write
  show ?thesis by (simp add: demo_pages) (simp add: demo_lib_def)
qed

text \<open>
  Claim C3. In a run of \<^verbatim>\<open>add_watermark\<close> that has opened its input, the generator is
  entered exactly once, right after the input was opened, with the text given and its
  default angle and opacity. When the run succeeds, one and the same watermark page, the
  first page of the reader the generator returned, is the second argument of the merge of
  every input page: the pages of the output differ only by the input page they were merged
  onto, and the watermark is not adapted to any of them.
\<close>

theorem one_watermark_page_for_every_merge:
  assumes "open_reader lib (fs w) input_pdf = Inr reader"
    and "add_watermark lib input_pdf output_pdf text_arg w = (r, w')"
    and "t = (case text_arg of None \<Rightarrow> ''PREPRINT'' | Some x \<Rightarrow> x)"
  shows "(\<exists>later. calls w' = calls w @ [OpenRead input_pdf, Generate t 45 (3 / 10)] @ later \<and>
            (\<forall>a b c. Generate a b c \<notin> set later)) \<and>
         (r = Inr True \<longrightarrow>
           (\<exists>pages watermark wm others outs data.
              reader_pages lib reader = Inr pages \<and>
              fst (create_watermark lib (Some t) None None w) = Inr watermark \<and>
              reader_pages lib watermark = Inr (wm # others) \<and>
              list_all2 (\<lambda>page merged. merge_page lib page wm = Inr merged) pages outs \<and>
              writer_write lib outs = Inr data \<and>
              fs w' = (fs w)(output_pdf \<mapsto> File data)))"
proof (cases "r = Inr True")
  case True
  with assms(2) have run: "add_watermark lib input_pdf output_pdf text_arg w = (Inr True, w')"
    by simp
  from add_watermark_True [OF run assms(3)] assms(1)
  obtain watermark wm others pages outs data where
    g: "fst (create_watermark lib (Some t) None None w) = Inr watermark"
    and wp: "reader_pages lib watermark = Inr (wm # others)"
    and p: "reader_pages lib reader = Inr pages"
    and m: "merge_pages lib wm pages [] = Inr outs"
    and d: "writer_write lib outs = Inr data"
    and w': "w' = w\<lparr>fs := (fs w)(output_pdf \<mapsto> File data),
                  stdout := stdout w @ [success_line output_pdf],
                  calls := calls w @ [OpenRead input_pdf, Generate t 45 (3 / 10),
                    OpenWrite output_pdf]\<rparr>"
    by auto
  from w' have "calls w' =
      calls w @ [OpenRead input_pdf, Generate t 45 (3 / 10)] @ [OpenWrite output_pdf]"
    by simp
  moreover have "\<forall>a b c. Generate a b c \<notin> set [OpenWrite output_pdf]" by simp
  ultimately have first:
    "\<exists>later. calls w' = calls w @ [OpenRead input_pdf, Generate t 45 (3 / 10)] @ later \<and>
       (\<forall>a b c. Generate a b c \<notin> set later)"
    by blast
  from g wp p merge_pages_all2 [OF m] d w' first show ?thesis by auto
next
  case False
  have "\<And>r0 w1. try_body lib input_pdf output_pdf t w = (Inr r0, w1) \<Longrightarrow> r0"
    using try_body_Inr by blast
  with False assms(2, 3) obtain e w1 where
    b: "try_body lib input_pdf output_pdf t w = (Inl e, w1)"
    by (cases "try_body lib input_pdf output_pdf t w")
      (auto simp: add_watermark_def split: sum.splits)
  from add_watermark_handler [OF b assms(3)] assms(2)
  have c: "calls w' = calls w1" by (auto split: option.splits)
  from try_body_Inl_calls [OF b assms(1)]
  have "calls w1 = calls w @ [OpenRead input_pdf, Generate t 45 (3 / 10)] @ []
      \<or> calls w1 = calls w @ [OpenRead input_pdf, Generate t 45 (3 / 10)] @
           [OpenWrite output_pdf]"
    by simp
  then have "\<exists>later. calls w1 = calls w @ [OpenRead input_pdf, Generate t 45 (3 / 10)] @ later \<and>
       (\<forall>a b c. Generate a b c \<notin> set later)"
    by (elim disjE) (rule exI [of _ "[]"], simp, rule exI [of _ "[OpenWrite output_pdf]"], simp)
  with False c show ?thesis by simp
qed

theorem one_watermark_page_for_every_merge_witness:
  "open_reader demo_lib (fs demo_world) ''in.pdf'' = Inr [''a'', ''b''] \<and>
   fst (add_watermark demo_lib ''in.pdf'' ''out.pdf'' None demo_world) = Inr True \<and>
   (\<exists>later. calls (snd (add_watermark demo_lib ''in.pdf'' ''out.pdf'' None demo_world)) =
        calls demo_world @ [OpenRead ''in.pdf'', Generate ''PREPRINT'' 45 (3 / 10)] @ later \<and>
        (\<forall>a b c. Generate a b c \<notin> set later)) \<and>
   (\<exists>pages watermark wm others outs data.
      reader_pages demo_lib [''a'', ''b''] = Inr pages \<and>
      fst (create_watermark demo_lib (Some ''PREPRINT'') None None demo_world) =
        Inr watermark \<and>
      reader_pages demo_lib watermark = Inr (wm # others) \<and>
      list_all2 (\<lambda>page merged. merge_page demo_lib page wm = Inr merged) pages outs \<and>
      writer_write demo_lib outs = Inr data \<and>
      fs (snd (add_watermark demo_lib ''in.pdf'' ''out.pdf'' None demo_world)) =
        (fs demo_world)(''out.pdf'' \<mapsto> File data))"
  using one_watermark_page_for_every_merge [OF demo_read demo_run, of "''PREPRINT''"]
    demo_read demo_run
  by simp

text \<open>
  Claim C9. When opening the input raises, or generating the watermark raises or yields
  no page, or fetching the input's pages raises, or the loop raises at some page (in the
  merge or in appending to the writer), \<^verbatim>\<open>add_watermark\<close> does not return \<^verbatim>\<open>True\<close> (it
  returns \<^verbatim>\<open>False\<close> when its error line can be printed) and makes no call to
  \<^verbatim>\<open>open(output_pdf, 'wb')\<close>: no such call is among those the run made, and the file
  system is what it was, so no output file was created and a file already at the output
  path kept its content. By \<open>merge_pages_raises\<close> the loop raises as soon as one page
  cannot be merged or appended.
\<close>

theorem early_failure_never_opens_output:
  assumes "t = (case text_arg of None \<Rightarrow> ''PREPRINT'' | Some x \<Rightarrow> x)"
    and "gen = fst (create_watermark lib (Some t) None None w)"
    and "open_reader lib (fs w) input_pdf = Inl e
      \<or> (\<exists>reader. open_reader lib (fs w) input_pdf = Inr reader \<and>
            (gen = Inl e
             \<or> (\<exists>watermark. gen = Inr watermark \<and>
                   (reader_pages lib watermark = Inl e
                    \<or> reader_pages lib watermark = Inr [] \<and>
                       e = Exception ''sequence index out of range''
                    \<or> (\<exists>wm others. reader_pages lib watermark = Inr (wm # others) \<and>
                          (reader_pages lib reader = Inl e
                           \<or> (\<exists>pages. reader_pages lib reader = Inr pages \<and>
                                 merge_pages lib wm pages [] = Inl e)))))))"
  shows "\<exists>r w' new. add_watermark lib input_pdf output_pdf text_arg w = (r, w') \<and>
           r \<noteq> Inr True \<and>
           (print_error w (error_line input_pdf e) = None \<longrightarrow> r = Inr False) \<and>
           fs w' = fs w \<and> calls w' = calls w @ new \<and> (\<forall>p. OpenWrite p \<notin> set new)"
proof -
  from try_body_raises_early [OF assms(2), of input_pdf e output_pdf] assms(3)
  obtain w1 new where b: "try_body lib input_pdf output_pdf t w = (Inl e, w1)"
    and s: "encode_error w1 = encode_error w"
    and f: "fs w1 = fs w" and c: "calls w1 = calls w @ new" "\<forall>p. OpenWrite p \<notin> set new"
    by blast
  have p: "print_error w1 line = print_error w line" for line
    using s by (simp add: print_error_def)
  from add_watermark_handler [OF b assms(1)] f c p show ?thesis
    by (cases "print_error w (error_line input_pdf e)") auto
qed

theorem early_failure_never_opens_output_witness:
  "open_reader demo_lib (fs demo_world) ''bad.pdf'' = Inr [''a'', ''!''] \<and>
   fst (create_watermark demo_lib (Some ''PREPRINT'') None None demo_world) = Inr [''PREPRINT''] \<and>
   reader_pages demo_lib [''PREPRINT''] = Inr [''PREPRINT''] \<and>
   reader_pages demo_lib [''a'', ''!''] = Inr [''a'', ''!''] \<and>
   merge_pages demo_lib ''PREPRINT'' [''a'', ''!''] [] = Inl (Exception ''cannot merge'') \<and>
   (\<exists>r w' new. add_watermark demo_lib ''bad.pdf'' ''in.pdf'' None demo_world = (r, w') \<and>
      r \<noteq> Inr True \<and> r = Inr False \<and>
      fs w' = fs demo_world \<and> calls w' = calls demo_world @ new \<and>
      (\<forall>p. OpenWrite p \<notin> set new))"
  using early_failure_never_opens_output [of "''PREPRINT''" None
      "fst (create_watermark demo_lib (Some ''PREPRINT'') None None demo_world)"
      demo_lib demo_world "''bad.pdf''" "Exception ''cannot merge''" "''in.pdf''"]
    demo_read_bad demo_generate [of demo_world] demo_merge_bad
  by (simp add: demo_pages demo_prints)

subsection \<open>The generator\<close>

text \<open>
  Claim C2. For a text, an angle in degrees and an opacity (left out, they are
  \<open>PREPRINT\<close>, 45 and 0.3), \<^verbatim>\<open>create_watermark\<close> hands the renderer a document of exactly
  one page of size A4 with exactly one item on it: the text, drawn by
  \<^verbatim>\<open>drawCentredString\<close> at the origin of its own coordinates, in Helvetica-Bold at 60
  points, filled gray at the given opacity, under the translation to the centre of the
  page followed by the rotation by the angle. What it returns is the reader over that
  rendering, or the exception the renderer or the reader raised. The origin, on which
  the string is centred, lands on the centre of the page, and every other point is turned
  by the angle about that centre. This holds for every opacity, those between 0 and 1
  included.
\<close>

theorem watermark_page_content:
  "create_watermark lib text_arg angle_arg opacity_arg w =
     (let text = (case text_arg of None \<Rightarrow> ''PREPRINT'' | Some t \<Rightarrow> t);
          angle = (case angle_arg of None \<Rightarrow> 45 | Some a \<Rightarrow> a);
          opacity = (case opacity_arg of None \<Rightarrow> 3 / 10 | Some a \<Rightarrow> a);
          centre = (fst A4 / 2, snd A4 / 2);
          turned = [Translate (fst centre) (snd centre), Rotate angle]
      in (case render lib (ambient w)
               [\<lparr>page_size = A4,
                 page_items =
                   [CentredString
                      \<lparr>font_name = ''Helvetica-Bold'', font_size = 60, fill_color = gray,
                       fill_alpha = opacity, ctm = turned\<rparr>
                      0 0 text]\<rparr>] of
            Inl e \<Rightarrow> Inl e
          | Inr packet \<Rightarrow> read_stream lib packet,
          log (Generate text angle opacity) w))
   \<and> (let angle = (case angle_arg of None \<Rightarrow> 45 | Some a \<Rightarrow> a);
           centre = (fst A4 / 2, snd A4 / 2);
           turned = [Translate (fst centre) (snd centre), Rotate angle]
       in to_page turned (0, 0) = centre \<and>
          to_page turned (x, y) =
            (fst centre + (x * cos (angle * pi / 180) - y * sin (angle * pi / 180)),
             snd centre + (x * sin (angle * pi / 180) + y * cos (angle * pi / 180))))"
  by (simp add: create_watermark_result Let_def to_page_def)

theorem watermark_page_content_witness:
  "create_watermark demo_lib None None None demo_world =
     (Inr [''PREPRINT''], demo_world\<lparr>calls := [Generate ''PREPRINT'' 45 (3 / 10)]\<rparr>) \<and>
   to_page [Translate (fst A4 / 2) (snd A4 / 2), Rotate 45] (0, 0) = (fst A4 / 2, snd A4 / 2)"
  using watermark_page_content [of demo_lib None None None demo_world 0 0]
  by (simp add: Let_def demo_lib_def demo_world_def log_def)



subsection \<open>Success and failure of a run\<close>

text \<open>
  Claim C7, as stated, fails where standard output cannot encode the confirmation line
  (its check mark, or a byte of the output path). In the second small world every
  processing step succeeds and the output file is written, yet nothing is printed, the
  print raises inside the \<^verbatim>\<open>try\<close>, the print of the handler raises as well and leaves
  \<^verbatim>\<open>add_watermark\<close>, and the exit status is 1.
\<close>

theorem written_but_exit_status_one:
  "open_reader demo_lib (fs charmap_world) ''in.pdf'' = Inr [''a'', ''b''] \<and>
   merge_pages demo_lib ''PREPRINT'' [''a'', ''b''] [] = Inr [''aPREPRINT'', ''bPREPRINT''] \<and>
   open_wb_error demo_lib (fs charmap_world) ''out.pdf'' = None \<and>
   writer_write demo_lib [''aPREPRINT'', ''bPREPRINT''] = Inr ''aPREPRINTbPREPRINT'' \<and>
   fs (snd (main demo_lib [''add_watermark.py'', ''in.pdf'', ''out.pdf''] charmap_world))
     ''out.pdf'' = Some (File ''aPREPRINTbPREPRINT'') \<and>
   stdout (snd (main demo_lib [''add_watermark.py'', ''in.pdf'', ''out.pdf''] charmap_world)) = [] \<and>
   fst (main demo_lib [''add_watermark.py'', ''in.pdf'', ''out.pdf''] charmap_world) = 1 \<and>
   fst (add_watermark demo_lib ''in.pdf'' ''out.pdf'' None charmap_world) =
     Inl (Exception ''charmap codec cannot encode character'')"
proof -
  let ?e = "Exception ''charmap codec cannot encode character''"
  have run: "add_watermark demo_lib ''in.pdf'' ''out.pdf'' None v =
      (Inl ?e,
       v\<lparr>fs := (fs v)(''out.pdf'' \<mapsto> File ''aPREPRINTbPREPRINT''),
         calls := calls v @
           [OpenRead ''in.pdf'', Generate ''PREPRINT'' 45 (3 / 10), OpenWrite ''out.pdf'']\<rparr>)"
    if f: "fs v = fs demo_world" and c: "encode_error v = encode_error charmap_world" for v
  proof -
    let ?w1 = "v\<lparr>fs := (fs v)(''out.pdf'' \<mapsto> File ''aPREPRINTbPREPRINT''),
         calls := calls v @
           [OpenRead ''in.pdf'', Generate ''PREPRINT'' 45 (3 / 10), OpenWrite ''out.pdf'']\<rparr>"
    have p: "print_error v (success_line ''out.pdf'') = Some ?e"
      using print_error_cong [OF c] charmap_emoji(1) by simp
    have r: "open_reader demo_lib (fs v) ''in.pdf'' = Inr [''a'', ''b'']"
      and o: "open_wb_error demo_lib (fs v) ''out.pdf'' = None"
      using f demo_read demo_open by simp_all
    from try_body_print_raises [OF r demo_generate demo_pages demo_pages demo_merge o
        demo_write p]
    have b: "try_body demo_lib ''in.pdf'' ''out.pdf'' ''PREPRINT'' v = (Inl ?e, ?w1)" .
    have "print_error ?w1 (error_line ''in.pdf'' ?e) = Some ?e"
      using print_error_cong [of ?w1 charmap_world] c charmap_emoji(2) [of charmap_world]
      by (simp add: print_error_def charmap_world_def error_line_def emoji_not_ascii)
    with add_watermark_handler [OF b, of None] show ?thesis by simp
  qed
  have ex: "path_exists (fs charmap_world) ''in.pdf''"
    by (simp add: path_exists_def charmap_world_def demo_world_def)
  have "main demo_lib [''add_watermark.py'', ''in.pdf'', ''out.pdf''] charmap_world =
      (1, charmap_world\<lparr>fs := (fs charmap_world)(''out.pdf'' \<mapsto> File ''aPREPRINTbPREPRINT''),
         tracebacks := [?e],
         calls := [Exists ''in.pdf'', OpenRead ''in.pdf'', Generate ''PREPRINT'' 45 (3 / 10),
           OpenWrite ''out.pdf'']\<rparr>)"
    using ex run [of "log (Exists ''in.pdf'') charmap_world"]
    by (simp add: main_def Let_def log_def uncaught_def charmap_world_def demo_world_def)
  with run [of charmap_world] demo_read demo_merge demo_open demo_write show ?thesis
    by (simp add: charmap_fs) (simp add: charmap_world_def demo_world_def)
qed

text \<open>
  Claim C7, amended. When every step succeeds (the input is opened, the watermark is
  generated with at least one page, the input's pages are fetched, every page is merged
  and appended, the output is opened and the document written) and standard output can
  encode the confirmation line, \<^verbatim>\<open>add_watermark\<close> returns \<^verbatim>\<open>True\<close>, the line printed is the
  check mark, the words of the confirmation and the output path, the file at the output
  path holds the bytes the writer wrote for the merged pages, and a process started with
  these two paths, the input existing, exits with status 0.
\<close>

theorem successful_run_reports_and_exits_zero:
  assumes "open_reader lib (fs w) input_pdf = Inr reader"
    and "fst (create_watermark lib (Some ''PREPRINT'') None None w) = Inr watermark"
    and "reader_pages lib watermark = Inr (wm # others)"
    and "reader_pages lib reader = Inr pages"
    and "length outs = length pages"
    and "\<forall>k < length pages.
           merge_page lib (pages ! k) wm = Inr (outs ! k) \<and>
           add_page_error lib (take k outs) (outs ! k) = None"
    and "open_wb_error lib (fs w) output_pdf = None"
    and "writer_write lib outs = Inr data"
    and "line = [CHR 0xE2, CHR 0x9C, CHR 0x85] @ '' Successfully added watermark to '' @ output_pdf"
    and "print_error w line = None"
  shows "add_watermark lib input_pdf output_pdf None w =
           (Inr True,
            w\<lparr>fs := (fs w)(output_pdf \<mapsto> File data),
              stdout := stdout w @ [line],
              calls := calls w @
                [OpenRead input_pdf, Generate ''PREPRINT'' 45 (3 / 10), OpenWrite output_pdf]\<rparr>) \<and>
         (3 \<le> length argv \<and> argv ! 1 = input_pdf \<and> argv ! 2 = output_pdf \<and>
          path_exists (fs w) input_pdf \<longrightarrow>
            main lib argv w =
              (0,
               w\<lparr>fs := (fs w)(output_pdf \<mapsto> File data),
                 stdout := stdout w @ [line],
                 calls := calls w @
                   [Exists input_pdf, OpenRead input_pdf, Generate ''PREPRINT'' 45 (3 / 10),
                    OpenWrite output_pdf]\<rparr>))"
proof -
  have line: "line = success_line output_pdf"
    using assms(9) by (simp add: success_line_def check_mark_def)
  from assms(6) have "\<forall>k < length pages.
      merge_page lib (pages ! k) wm = Inr (outs ! k) \<and>
      add_page_error lib ([] @ take k outs) (outs ! k) = None"
    by simp
  from merge_pages_succeeds [OF assms(5) this]
  have m: "merge_pages lib wm pages [] = Inr outs" by simp
  have run: "add_watermark lib input_pdf output_pdf None v =
           (Inr True,
            v\<lparr>fs := (fs v)(output_pdf \<mapsto> File data),
              stdout := stdout v @ [line],
              calls := calls v @
                [OpenRead input_pdf, Generate ''PREPRINT'' 45 (3 / 10), OpenWrite output_pdf]\<rparr>)"
    if "fs v = fs w" "ambient v = ambient w" "encode_error v = encode_error w" for v
  proof -
    have g: "fst (create_watermark lib (Some ''PREPRINT'') None None v) = Inr watermark"
      using assms(2)
        create_watermark_same_ambient [OF that(2), of lib "Some ''PREPRINT''" None None]
      by simp
    from that assms have r: "open_reader lib (fs v) input_pdf = Inr reader"
      and o: "open_wb_error lib (fs v) output_pdf = None" by simp_all
    have p: "print_error v (success_line output_pdf) = None"
      using print_error_cong [OF that(3)] assms(10) line by simp
    from try_body_succeeds [OF r g assms(3, 4) m o assms(8) p]
    show ?thesis by (simp add: add_watermark_def line)
  qed
  have "main lib argv w =
      (0,
       w\<lparr>fs := (fs w)(output_pdf \<mapsto> File data),
         stdout := stdout w @ [line],
         calls := calls w @
           [Exists input_pdf, OpenRead input_pdf, Generate ''PREPRINT'' 45 (3 / 10),
            OpenWrite output_pdf]\<rparr>)"
    if "3 \<le> length argv" "argv ! 1 = input_pdf" "argv ! 2 = output_pdf"
      "path_exists (fs w) input_pdf"
    using that run [of "log (Exists input_pdf) w"]
    by (simp add: main_def Let_def log_def)
  with run [of w] show ?thesis by simp
qed

theorem successful_run_reports_and_exits_zero_witness:
  "open_reader demo_lib (fs demo_world) ''in.pdf'' = Inr [''a'', ''b''] \<and>
   fst (create_watermark demo_lib (Some ''PREPRINT'') None None demo_world) = Inr [''PREPRINT''] \<and>
   reader_pages demo_lib [''PREPRINT''] = Inr [''PREPRINT''] \<and>
   reader_pages demo_lib [''a'', ''b''] = Inr [''a'', ''b''] \<and>
   merge_page demo_lib ''a'' ''PREPRINT'' = Inr ''aPREPRINT'' \<and>
   add_page_error demo_lib [] ''aPREPRINT'' = None \<and>
   merge_page demo_lib ''b'' ''PREPRINT'' = Inr ''bPREPRINT'' \<and>
   add_page_error demo_lib [''aPREPRINT''] ''bPREPRINT'' = None \<and>
   open_wb_error demo_lib (fs demo_world) ''out.pdf'' = None \<and>
   writer_write demo_lib [''aPREPRINT'', ''bPREPRINT''] = Inr ''aPREPRINTbPREPRINT'' \<and>
   print_error demo_world
     ([CHR 0xE2, CHR 0x9C, CHR 0x85] @ '' Successfully added watermark to '' @ ''out.pdf'') = None \<and>
   path_exists (fs demo_world) ''in.pdf'' \<and>
   main demo_lib [''add_watermark.py'', ''in.pdf'', ''out.pdf''] demo_world =
     (0,
      demo_world\<lparr>fs := (fs demo_world)(''out.pdf'' \<mapsto> File ''aPREPRINTbPREPRINT''),
        stdout := stdout demo_world @
          [[CHR 0xE2, CHR 0x9C, CHR 0x85] @ '' Successfully added watermark to '' @ ''out.pdf''],
        calls := calls demo_world @
          [Exists ''in.pdf'', OpenRead ''in.pdf'', Generate ''PREPRINT'' 45 (3 / 10),
           OpenWrite ''out.pdf'']\<rparr>)"
proof -
  have ex: "path_exists (fs demo_world) ''in.pdf''"
    by (simp add: path_exists_def demo_world_def)
  have len: "length [''aPREPRINT'', ''bPREPRINT''] = length [''a'', ''b'']" by simp
  from successful_run_reports_and_exits_zero
    [OF demo_read demo_generate demo_pages demo_pages len demo_each_page demo_open demo_write
      refl demo_prints, of "[''add_watermark.py'', ''in.pdf'', ''out.pdf'']"] ex
  have "main demo_lib [''add_watermark.py'', ''in.pdf'', ''out.pdf''] demo_world =
     (0,
      demo_world\<lparr>fs := (fs demo_world)(''out.pdf'' \<mapsto> File ''aPREPRINTbPREPRINT''),
        stdout := stdout demo_world @
          [[CHR 0xE2, CHR 0x9C, CHR 0x85] @ '' Successfully added watermark to '' @ ''out.pdf''],
        calls := calls demo_world @
          [Exists ''in.pdf'', OpenRead ''in.pdf'', Generate ''PREPRINT'' 45 (3 / 10),
           OpenWrite ''out.pdf'']\<rparr>)"
    by simp
  with demo_read demo_generate [of demo_world] demo_open demo_write ex
  show ?thesis by (simp add: demo_pages demo_prints) (simp add: demo_lib_def)
qed

text \<open>
  Claim C4, as stated, fails where standard output cannot encode the error line (its
  cross mark, or a byte of the input path or of the error text). In the second small
  world the second page of \<open>bad.pdf\<close> cannot be merged; the handler catches that exception,
  but its own print raises: nothing is printed, \<^verbatim>\<open>add_watermark\<close> returns nothing, and the
  exception of the print leaves it uncaught. The exit status is still 1.
\<close>

theorem handler_print_raises:
  "merge_pages demo_lib ''PREPRINT'' [''a'', ''!''] [] = Inl (Exception ''cannot merge'') \<and>
   fst (add_watermark demo_lib ''bad.pdf'' ''out.pdf'' None charmap_world) =
     Inl (Exception ''charmap codec cannot encode character'') \<and>
   stdout (snd (add_watermark demo_lib ''bad.pdf'' ''out.pdf'' None charmap_world)) = [] \<and>
   main demo_lib [''add_watermark.py'', ''bad.pdf'', ''out.pdf''] charmap_world =
     (1, charmap_world\<lparr>tracebacks := [Exception ''charmap codec cannot encode character''],
           calls := [Exists ''bad.pdf'', OpenRead ''bad.pdf'',
             Generate ''PREPRINT'' 45 (3 / 10)]\<rparr>)"
proof -
  let ?e = "Exception ''charmap codec cannot encode character''"
  have run: "add_watermark demo_lib ''bad.pdf'' ''out.pdf'' None v =
      (Inl ?e,
       v\<lparr>calls := calls v @ [OpenRead ''bad.pdf'', Generate ''PREPRINT'' 45 (3 / 10)]\<rparr>)"
    if f: "fs v = fs demo_world" and c: "encode_error v = encode_error charmap_world" for v
  proof -
    have r: "open_reader demo_lib (fs v) ''bad.pdf'' = Inr [''a'', ''!'']"
      using f demo_read_bad by simp
    have b: "try_body demo_lib ''bad.pdf'' ''out.pdf'' ''PREPRINT'' v =
        (Inl (Exception ''cannot merge''),
         v\<lparr>calls := calls v @ [OpenRead ''bad.pdf'', Generate ''PREPRINT'' 45 (3 / 10)]\<rparr>)"
      using r
      by (simp add: try_body_def create_watermark_result Let_def log_def demo_lib_def)
    have "print_error
        (v\<lparr>calls := calls v @ [OpenRead ''bad.pdf'', Generate ''PREPRINT'' 45 (3 / 10)]\<rparr>)
        (error_line ''bad.pdf'' (Exception ''cannot merge'')) = Some ?e"
      using c by (simp add: print_error_def charmap_world_def error_line_def emoji_not_ascii)
    with add_watermark_handler [OF b, of None] show ?thesis by simp
  qed
  have ex: "path_exists (fs charmap_world) ''bad.pdf''"
    by (simp add: path_exists_def charmap_world_def demo_world_def)
  have "main demo_lib [''add_watermark.py'', ''bad.pdf'', ''out.pdf''] charmap_world =
     (1, charmap_world\<lparr>tracebacks := [?e],
           calls := [Exists ''bad.pdf'', OpenRead ''bad.pdf'',
             Generate ''PREPRINT'' 45 (3 / 10)]\<rparr>)"
    using ex run [of "log (Exists ''bad.pdf'') charmap_world"]
    by (simp add: main_def Let_def log_def uncaught_def charmap_world_def demo_world_def)
  moreover from run [of charmap_world]
  have "fst (add_watermark demo_lib ''bad.pdf'' ''out.pdf'' None charmap_world) = Inl ?e"
    and "stdout (snd (add_watermark demo_lib ''bad.pdf'' ''out.pdf'' None charmap_world)) = []"
    by (simp_all add: charmap_fs) (simp add: charmap_world_def demo_world_def)
  ultimately show ?thesis using demo_merge_bad by simp
qed

text \<open>
  Claim C4, amended. Whichever step raises an exception \<open>e\<close> (opening the input;
  generating the watermark, fetching its pages or taking the first of none; fetching the
  input's pages; merging or appending a page; opening the output; writing the document),
  the handler in \<^verbatim>\<open>add_watermark\<close> catches it, and a process started with these two paths,
  the input existing, exits with status 1. When standard output can encode the error
  line, the function returns \<^verbatim>\<open>False\<close> and what was printed is that one line: the cross
  mark, the words, the input path and the text of \<open>e\<close>; nothing is reported as uncaught.
  By \<open>merge_pages_raises\<close> the loop raises as soon as one page cannot be merged or
  appended.
\<close>

theorem failure_is_caught_and_reported:
  assumes "t = (case text_arg of None \<Rightarrow> ''PREPRINT'' | Some x \<Rightarrow> x)"
    and "gen = fst (create_watermark lib (Some t) None None w)"
    and "open_reader lib (fs w) input_pdf = Inl e
      \<or> (\<exists>reader. open_reader lib (fs w) input_pdf = Inr reader \<and>
            (gen = Inl e
             \<or> (\<exists>watermark. gen = Inr watermark \<and>
                   (reader_pages lib watermark = Inl e
                    \<or> reader_pages lib watermark = Inr [] \<and>
                       e = Exception ''sequence index out of range''
                    \<or> (\<exists>wm others. reader_pages lib watermark = Inr (wm # others) \<and>
                          (reader_pages lib reader = Inl e
                           \<or> (\<exists>pages. reader_pages lib reader = Inr pages \<and>
                                 (merge_pages lib wm pages [] = Inl e
                                  \<or> (\<exists>outs. merge_pages lib wm pages [] = Inr outs \<and>
                                        (open_wb_error lib (fs w) output_pdf = Some e
                                         \<or> open_wb_error lib (fs w) output_pdf = None \<and>
                                            (\<exists>written.
                                               writer_write lib outs =
                                                 Inl (e, written))))))))))))"
    and "line = [CHR 0xE2, CHR 0x9D, CHR 0x8C] @ '' Error processing '' @ input_pdf @ '': '' @ str e"
  shows "(print_error w line = None \<longrightarrow>
            (\<exists>w'. add_watermark lib input_pdf output_pdf text_arg w = (Inr False, w') \<and>
               stdout w' = stdout w @ [line] \<and> tracebacks w' = tracebacks w)) \<and>
         (text_arg = None \<and> 3 \<le> length argv \<and> argv ! 1 = input_pdf \<and> argv ! 2 = output_pdf \<and>
          path_exists (fs w) input_pdf \<longrightarrow>
            fst (main lib argv w) = 1 \<and>
            (print_error w line = None \<longrightarrow>
               stdout (snd (main lib argv w)) = stdout w @ [line] \<and>
               tracebacks (snd (main lib argv w)) = tracebacks w))"
proof -
  have line: "line = error_line input_pdf e"
    using assms(4) by (simp add: error_line_def cross_mark_def)
  have handled: "\<exists>w1. stdout w1 = stdout v \<and> tracebacks w1 = tracebacks v \<and>
      add_watermark lib input_pdf output_pdf text_arg v =
        (case print_error w line of
           None \<Rightarrow> (Inr False, w1\<lparr>stdout := stdout w1 @ [line]\<rparr>)
         | Some e' \<Rightarrow> (Inl e', w1))"
    if "fs v = fs w" "ambient v = ambient w" "encode_error v = encode_error w" for v
  proof -
    have "gen = fst (create_watermark lib (Some t) None None v)"
      using assms(2) create_watermark_same_ambient [OF that(2), of lib "Some t" None None]
      by simp
    from try_body_raises [OF this, of input_pdf e output_pdf] assms(3) that(1)
    obtain w1 where b: "try_body lib input_pdf output_pdf t v = (Inl e, w1)"
      and s: "stdout w1 = stdout v" "tracebacks w1 = tracebacks v"
      and c: "encode_error w1 = encode_error v"
      by auto
    have "print_error w1 line = print_error w line"
      using print_error_cong [of w1 w] c that(3) by simp
    with add_watermark_handler [OF b assms(1)] s line show ?thesis by auto
  qed
  have first: "print_error w line = None \<longrightarrow>
      (\<exists>w'. add_watermark lib input_pdf output_pdf text_arg w = (Inr False, w') \<and>
         stdout w' = stdout w @ [line] \<and> tracebacks w' = tracebacks w)"
    using handled [of w] by auto
  have second: "fst (main lib argv w) = 1 \<and>
      (print_error w line = None \<longrightarrow>
         stdout (snd (main lib argv w)) = stdout w @ [line] \<and>
         tracebacks (snd (main lib argv w)) = tracebacks w)"
    if "text_arg = None" "3 \<le> length argv" "argv ! 1 = input_pdf" "argv ! 2 = output_pdf"
      "path_exists (fs w) input_pdf"
  proof -
    from handled [of "log (Exists input_pdf) w"] obtain w1 where
      "stdout w1 = stdout w" "tracebacks w1 = tracebacks w"
      "add_watermark lib input_pdf output_pdf text_arg (log (Exists input_pdf) w) =
        (case print_error w line of
           None \<Rightarrow> (Inr False, w1\<lparr>stdout := stdout w1 @ [line]\<rparr>)
         | Some e' \<Rightarrow> (Inl e', w1))"
      by (auto simp: log_def)
    with that show ?thesis
      by (cases "print_error w line") (simp_all add: main_def Let_def log_def uncaught_def)
  qed
  from first second show ?thesis by blast
qed

theorem failure_is_caught_and_reported_witness:
  "open_reader demo_lib (fs demo_world) ''bad.pdf'' = Inr [''a'', ''!''] \<and>
   fst (create_watermark demo_lib (Some ''PREPRINT'') None None demo_world) = Inr [''PREPRINT''] \<and>
   reader_pages demo_lib [''PREPRINT''] = Inr [''PREPRINT''] \<and>
   reader_pages demo_lib [''a'', ''!''] = Inr [''a'', ''!''] \<and>
   merge_pages demo_lib ''PREPRINT'' [''a'', ''!''] [] = Inl (Exception ''cannot merge'') \<and>
   path_exists (fs demo_world) ''bad.pdf'' \<and>
   print_error demo_world
     ([CHR 0xE2, CHR 0x9D, CHR 0x8C] @ '' Error processing '' @ ''bad.pdf'' @ '': '' @
        ''cannot merge'') = None \<and>
   (\<exists>w'. add_watermark demo_lib ''bad.pdf'' ''out.pdf'' None demo_world = (Inr False, w') \<and>
      stdout w' =
        [[CHR 0xE2, CHR 0x9D, CHR 0x8C] @ '' Error processing '' @ ''bad.pdf'' @ '': '' @
           ''cannot merge''] \<and>
      tracebacks w' = []) \<and>
   fst (main demo_lib [''add_watermark.py'', ''bad.pdf'', ''out.pdf''] demo_world) = 1 \<and>
   stdout (snd (main demo_lib [''add_watermark.py'', ''bad.pdf'', ''out.pdf''] demo_world)) =
     [[CHR 0xE2, CHR 0x9D, CHR 0x8C] @ '' Error processing '' @ ''bad.pdf'' @ '': '' @
        ''cannot merge'']"
proof -
  have ex: "path_exists (fs demo_world) ''bad.pdf''"
    by (simp add: path_exists_def demo_world_def)
  have empty: "stdout demo_world = []" "tracebacks demo_world = []"
    by (simp_all add: demo_world_def)
  from failure_is_caught_and_reported [of "''PREPRINT''" None
      "fst (create_watermark demo_lib (Some ''PREPRINT'') None None demo_world)"
      demo_lib demo_world "''bad.pdf''" "Exception ''cannot merge''" "''out.pdf''"
      "[CHR 0xE2, CHR 0x9D, CHR 0x8C] @ '' Error processing '' @ ''bad.pdf'' @ '': '' @
         ''cannot merge''"
      "[''add_watermark.py'', ''bad.pdf'', ''out.pdf'']"]
    demo_read_bad demo_generate [of demo_world] demo_merge_bad ex
  show ?thesis
    by (simp add: demo_pages demo_prints empty)
qed

subsection \<open>Arguments and the existence check\<close>

text \<open>
  Claim C6. Started with fewer than two arguments after the script's name (none or one),
  the \<^verbatim>\<open>__main__\<close> block prints the usage line on standard output and exits with
  status 1. The file system is left as it was and no call to the existence check, to a
  library or to \<^verbatim>\<open>open\<close> is made. The script as a whole does the same once its imports
  have succeeded, which is when that block is reached. The usage line is plain ASCII, so
  its print does not raise.
\<close>

theorem usage_on_too_few_arguments:
  "length argv < 3 \<Longrightarrow>
   main lib argv w = (1, w\<lparr>stdout := stdout w @ [usage_line]\<rparr>) \<and>
   (import_libs importable \<noteq> None \<longrightarrow>
      script importable lib_of argv w = (1, w\<lparr>stdout := stdout w @ [usage_line]\<rparr>))"
  by (auto simp: main_def script_def print_ok [OF ascii_usage_line])

theorem usage_on_too_few_arguments_witness:
  "length [''add_watermark.py'', ''in.pdf''] < 3 \<and>
   import_libs (\<lambda>m. True) \<noteq> None \<and>
   main demo_lib [''add_watermark.py'', ''in.pdf''] demo_world =
     (1, demo_world\<lparr>stdout := stdout demo_world @ [usage_line]\<rparr>) \<and>
   main demo_lib [''add_watermark.py''] demo_world =
     (1, demo_world\<lparr>stdout := stdout demo_world @ [usage_line]\<rparr>) \<and>
   script (\<lambda>m. True) (\<lambda>b. demo_lib) [''add_watermark.py''] demo_world =
     (1, demo_world\<lparr>stdout := stdout demo_world @ [usage_line]\<rparr>)"
  using usage_on_too_few_arguments
      [of "[''add_watermark.py'', ''in.pdf'']" demo_lib demo_world "\<lambda>m. True" "\<lambda>b. demo_lib"]
    usage_on_too_few_arguments
      [of "[''add_watermark.py'']" demo_lib demo_world "\<lambda>m. True" "\<lambda>b. demo_lib"]
  by (simp add: import_libs_def reportlab_modules_def)

text \<open>
  Claim C5, as stated, fails where standard output cannot encode the not-found line (its
  cross mark, or a byte of the path). In the second small world, started on a path that
  names nothing, the process exits with status 1 having printed no line at all: the print
  raises and is reported as uncaught.
\<close>

theorem missing_input_without_message:
  "\<not> path_exists (fs charmap_world) ''missing.pdf'' \<and>
   main demo_lib [''add_watermark.py'', ''missing.pdf'', ''nonexistent.pdf''] charmap_world =
     (1, charmap_world\<lparr>tracebacks := [Exception ''charmap codec cannot encode character''],
           calls := [Exists ''missing.pdf'']\<rparr>) \<and>
   stdout (snd (main demo_lib [''add_watermark.py'', ''missing.pdf'', ''nonexistent.pdf'']
     charmap_world)) = []"
proof -
  have ex: "\<not> path_exists (fs charmap_world) ''missing.pdf''"
    by (simp add: path_exists_def charmap_world_def demo_world_def)
  have p: "print_error (log (Exists ''missing.pdf'') charmap_world)
      (not_found_line ''missing.pdf'') =
        Some (Exception ''charmap codec cannot encode character'')"
    using print_error_cong [of "log (Exists ''missing.pdf'') charmap_world" charmap_world]
      charmap_emoji(3) by (simp add: log_def)
  have "main demo_lib [''add_watermark.py'', ''missing.pdf'', ''nonexistent.pdf'']
      charmap_world =
     (1, charmap_world\<lparr>tracebacks := [Exception ''charmap codec cannot encode character''],
           calls := [Exists ''missing.pdf'']\<rparr>)"
    using ex print_raises [OF p]
    by (simp add: main_def Let_def uncaught_def)
      (simp add: log_def charmap_world_def demo_world_def)
  with ex show ?thesis by (simp add: charmap_world_def demo_world_def)
qed

text \<open>
  Claim C5, amended. Started with an input path and an output path, the input path naming
  nothing in the file system, the \<^verbatim>\<open>__main__\<close> block exits with status 1 after the
  existence check as its only call: the input is not opened, no library is called, and
  the file system is left as it was, so no output file is created. When standard output
  can encode the not-found line, that line is printed: the cross mark, the words and the
  input path. The script as a whole does the same once its imports have succeeded, which
  is when that block is reached.
\<close>

theorem missing_input_is_reported_before_processing:
  assumes "3 \<le> length argv"
    and "\<not> path_exists (fs w) (argv ! 1)"
    and "line = [CHR 0xE2, CHR 0x9D, CHR 0x8C] @ '' Error: Input file '' @ argv ! 1 @ '' not found''"
  shows "fst (main lib argv w) = 1 \<and>
         fs (snd (main lib argv w)) = fs w \<and>
         calls (snd (main lib argv w)) = calls w @ [Exists (argv ! 1)] \<and>
         (print_error w line = None \<longrightarrow>
            main lib argv w =
              (1, w\<lparr>stdout := stdout w @ [line], calls := calls w @ [Exists (argv ! 1)]\<rparr>) \<and>
            (import_libs importable \<noteq> None \<longrightarrow>
               script importable lib_of argv w =
                 (1, w\<lparr>stdout := stdout w @ [line],
                       calls := calls w @ [Exists (argv ! 1)]\<rparr>)))"
proof -
  have line: "line = not_found_line (argv ! 1)"
    using assms(3) by (simp add: not_found_line_def cross_mark_def)
  have p: "print_error (log (Exists (argv ! 1)) w) line = print_error w line"
    by (rule print_error_cong) (simp add: log_def)
  show ?thesis
  proof (cases "print_error w line")
    case None
    with p have "print (not_found_line (argv ! 1)) (log (Exists (argv ! 1)) w) =
        Inr (log (Exists (argv ! 1)) w\<lparr>stdout := stdout w @ [line]\<rparr>)"
      using print_ok [of "log (Exists (argv ! 1)) w" line] line by (simp add: log_def)
    with assms(1, 2) None show ?thesis
      by (auto simp: main_def script_def Let_def log_def)
  next
    case (Some e')
    with p have "print (not_found_line (argv ! 1)) (log (Exists (argv ! 1)) w) = Inl e'"
      using print_raises [of "log (Exists (argv ! 1)) w" line e'] line by simp
    with assms(1, 2) Some show ?thesis
      by (simp add: main_def Let_def uncaught_def) (simp add: log_def)
  qed
qed

theorem missing_input_is_reported_before_processing_witness:
  "3 \<le> length [''add_watermark.py'', ''missing.pdf'', ''nonexistent.pdf''] \<and>
   \<not> path_exists (fs demo_world) ''missing.pdf'' \<and>
   import_libs (\<lambda>m. True) \<noteq> None \<and>
   print_error demo_world
     ([CHR 0xE2, CHR 0x9D, CHR 0x8C] @ '' Error: Input file '' @ ''missing.pdf'' @ '' not found'') =
     None \<and>
   main demo_lib [''add_watermark.py'', ''missing.pdf'', ''nonexistent.pdf''] demo_world =
     (1, demo_world\<lparr>stdout := stdout demo_world @
             [[CHR 0xE2, CHR 0x9D, CHR 0x8C] @ '' Error: Input file '' @ ''missing.pdf'' @
                '' not found''],
           calls := calls demo_world @ [Exists ''missing.pdf'']\<rparr>) \<and>
   script (\<lambda>m. True) (\<lambda>b. demo_lib)
       [''add_watermark.py'', ''missing.pdf'', ''nonexistent.pdf''] demo_world =
     (1, demo_world\<lparr>stdout := stdout demo_world @
             [[CHR 0xE2, CHR 0x9D, CHR 0x8C] @ '' Error: Input file '' @ ''missing.pdf'' @
                '' not found''],
           calls := calls demo_world @ [Exists ''missing.pdf'']\<rparr>)"
proof -
  have ex: "\<not> path_exists (fs demo_world) ''missing.pdf''"
    by (simp add: path_exists_def demo_world_def)
  have im: "import_libs (\<lambda>m. True) \<noteq> None"
    by (simp add: import_libs_def reportlab_modules_def)
  from missing_input_is_reported_before_processing
    [of "[''add_watermark.py'', ''missing.pdf'', ''nonexistent.pdf'']" demo_world
      "[CHR 0xE2, CHR 0x9D, CHR 0x8C] @ '' Error: Input file '' @ ''missing.pdf'' @ '' not found''"
      demo_lib "\<lambda>m. True" "\<lambda>b. demo_lib"] ex im
  show ?thesis by (simp add: demo_prints)
qed

text \<open>
  Claim C10. Arguments after the second are never read: started with more than two
  arguments, the \<^verbatim>\<open>__main__\<close> block, and the script as a whole, do exactly what they do
  started with the first two only (same exit status, same output, same files, same
  calls).
\<close>

theorem extra_arguments_are_ignored:
  "3 < length argv \<Longrightarrow>
   main lib argv w = main lib (take 3 argv) w \<and>
   script importable lib_of argv w = script importable lib_of (take 3 argv) w"
  by (simp add: main_def script_def split: option.splits)

theorem extra_arguments_are_ignored_witness:
  "3 < length [''add_watermark.py'', ''in.pdf'', ''out.pdf'', ''extra'', ''more''] \<and>
   main demo_lib [''add_watermark.py'', ''in.pdf'', ''out.pdf'', ''extra'', ''more''] demo_world =
     main demo_lib [''add_watermark.py'', ''in.pdf'', ''out.pdf''] demo_world \<and>
   script (\<lambda>m. True) (\<lambda>b. demo_lib)
       [''add_watermark.py'', ''in.pdf'', ''out.pdf'', ''extra'', ''more''] demo_world =
     script (\<lambda>m. True) (\<lambda>b. demo_lib) [''add_watermark.py'', ''in.pdf'', ''out.pdf''] demo_world"
  using extra_arguments_are_ignored
    [of "[''add_watermark.py'', ''in.pdf'', ''out.pdf'', ''extra'', ''more'']"
      demo_lib demo_world "\<lambda>m. True" "\<lambda>b. demo_lib"]
  by simp

end
